theory Spec2Isabelle
  imports Complex_Main "HOL-Library.AList"
begin

section \<open>JavaScript values\<close>

text \<open>
  A JavaScript number is \<open>NaN\<close> or a finite number. Finite doubles are idealised as
  reals: rounding and overflow to an infinity are not modelled, and the two zeros are
  one. \<open>NaN\<close> is kept, since comparisons with it decide what the handlers do. What a
  computation on doubles gives only through rounding (a square root of a number
  rounded below zero, an overflow) is outside this model, and so is every property
  whose truth depends on it.
\<close>

datatype jsnum = NaN | Fin real

text \<open>
  The values a parsed JSON document and a query can hold, \<open>undefined\<close>, which a read
  of a missing property yields, and the built-in objects of the runtime (the functions
  every object inherits from \<open>Object.prototype\<close>), each known by its name. An object
  that is the value of a property is the list of its own properties.
\<close>

datatype jsval =
    Undefined
  | Null
  | Bool bool
  | Num jsnum
  | Str string
  | Arr "jsval list"
  | Obj "(string \<times> jsval) list"
  | Builtin string

text \<open>
  The code never looks into a record otherwise than by reading a property, \<open>obj[key]\<close>
  or \<open>obj.key\<close>. A record is therefore what these reads give: for every key the value
  of the own property of that name, or else of the property inherited along the
  prototype chain, or else \<open>undefined\<close>.
\<close>

type_synonym jsobject = "string \<Rightarrow> jsval"

definition get_prop :: "jsobject \<Rightarrow> string \<Rightarrow> jsval" where
  "get_prop obj key = obj key"

text \<open>
  A plain object, as an object literal or a JSON parser builds it: its own properties,
  and behind them the members of \<open>Object.prototype\<close>, which are built-in objects.
\<close>

definition Object_prototype_keys :: "string list" where
  "Object_prototype_keys =
     [''constructor'', ''__defineGetter__'', ''__defineSetter__'', ''hasOwnProperty'',
      ''__lookupGetter__'', ''__lookupSetter__'', ''isPrototypeOf'', ''propertyIsEnumerable'',
      ''toString'', ''valueOf'', ''__proto__'', ''toLocaleString'']"

definition plain_object :: "(string \<times> jsval) list \<Rightarrow> jsobject" where
  "plain_object own =
     (\<lambda>key. case map_of own key of
               Some v \<Rightarrow> v
             | None \<Rightarrow> if key \<in> set Object_prototype_keys then Builtin key else Undefined)"

text \<open>\<open>v == null\<close> holds for \<open>null\<close> and \<open>undefined\<close> only.\<close>

fun nullish :: "jsval \<Rightarrow> bool" where
  "nullish Undefined = True"
| "nullish Null = True"
| "nullish _ = False"

fun isArray :: "jsval \<Rightarrow> bool" where
  "isArray (Arr _) = True"
| "isArray _ = False"

fun is_object :: "jsval \<Rightarrow> bool" where
  "is_object (Arr _) = True"
| "is_object (Obj _) = True"
| "is_object (Builtin _) = True"
| "is_object _ = False"

text \<open>
  Two objects are compared by reference. An array or object built by a parse or by a
  query literal is a new object each time, and the two sides of a comparison always
  come from different places (a parsed record and a query, or two separate parses of
  the file), so such objects are never the same. A built-in is one object wherever it
  is read.
\<close>

fun same_reference :: "jsval \<Rightarrow> jsval \<Rightarrow> bool" where
  "same_reference (Builtin a) (Builtin b) = (a = b)"
| "same_reference _ _ = False"

subsection \<open>Numbers\<close>

text \<open>\<open>x == y\<close> and \<open>x < y\<close> on two numbers: false as soon as one side is \<open>NaN\<close>.\<close>

fun num_eq :: "jsnum \<Rightarrow> jsnum \<Rightarrow> bool" where
  "num_eq (Fin x) (Fin y) = (x = y)"
| "num_eq _ _ = False"

fun num_lt :: "jsnum \<Rightarrow> jsnum \<Rightarrow> bool" where
  "num_lt (Fin x) (Fin y) = (x < y)"
| "num_lt _ _ = False"

text \<open>
  Arithmetic propagates \<open>NaN\<close>. Every division of the source has a non-zero literal
  as its divisor (180, 2), so a quotient by zero never arises.
\<close>

fun num_lift2 :: "(real \<Rightarrow> real \<Rightarrow> real) \<Rightarrow> jsnum \<Rightarrow> jsnum \<Rightarrow> jsnum" where
  "num_lift2 f (Fin x) (Fin y) = Fin (f x y)"
| "num_lift2 f _ _ = NaN"

definition num_add :: "jsnum \<Rightarrow> jsnum \<Rightarrow> jsnum" where
  "num_add = num_lift2 (\<lambda>x y. x + y)"

definition num_sub :: "jsnum \<Rightarrow> jsnum \<Rightarrow> jsnum" where
  "num_sub = num_lift2 (\<lambda>x y. x - y)"

definition num_mul :: "jsnum \<Rightarrow> jsnum \<Rightarrow> jsnum" where
  "num_mul = num_lift2 (\<lambda>x y. x * y)"

definition num_div :: "jsnum \<Rightarrow> jsnum \<Rightarrow> jsnum" where
  "num_div = num_lift2 (\<lambda>x y. x / y)"

fun Math_sin :: "jsnum \<Rightarrow> jsnum" where
  "Math_sin (Fin x) = Fin (sin x)"
| "Math_sin NaN = NaN"

fun Math_cos :: "jsnum \<Rightarrow> jsnum" where
  "Math_cos (Fin x) = Fin (cos x)"
| "Math_cos NaN = NaN"

fun Math_sqrt :: "jsnum \<Rightarrow> jsnum" where
  "Math_sqrt (Fin x) = (if x < 0 then NaN else Fin (sqrt x))"
| "Math_sqrt NaN = NaN"

text \<open>\<open>Math.atan2(y, x)\<close>: the angle of the point \<open>(x, y)\<close>, in \<open>(-\<pi>, \<pi>]\<close>.\<close>

definition atan2_real :: "real \<Rightarrow> real \<Rightarrow> real" where
  "atan2_real y x =
     (if 0 < x then arctan (y / x)
      else if x < 0 then (if 0 \<le> y then arctan (y / x) + pi else arctan (y / x) - pi)
      else if 0 < y then pi / 2
      else if y < 0 then - (pi / 2)
      else 0)"

fun Math_atan2 :: "jsnum \<Rightarrow> jsnum \<Rightarrow> jsnum" where
  "Math_atan2 (Fin y) (Fin x) = Fin (atan2_real y x)"
| "Math_atan2 _ _ = NaN"

subsection \<open>Coercions and equality\<close>

text \<open>
  Two conversions of the language are taken as given: the number a string denotes
  (\<open>StringToNumber\<close>) and the string an array or object converts to when it meets a
  primitive (\<open>ObjectToPrimitive\<close>, its \<open>toString\<close>). Whatever they are, the theorems
  below hold.
\<close>

record coercions =
  StringToNumber :: "string \<Rightarrow> jsnum"
  ObjectToPrimitive :: "jsval \<Rightarrow> string"

definition ToPrimitive :: "coercions \<Rightarrow> jsval \<Rightarrow> jsval" where
  "ToPrimitive cv v = (if is_object v then Str (ObjectToPrimitive cv v) else v)"

fun prim_to_number :: "coercions \<Rightarrow> jsval \<Rightarrow> jsnum" where
  "prim_to_number cv Undefined = NaN"
| "prim_to_number cv Null = Fin 0"
| "prim_to_number cv (Bool b) = Fin (if b then 1 else 0)"
| "prim_to_number cv (Num n) = n"
| "prim_to_number cv (Str s) = StringToNumber cv s"
| "prim_to_number cv v = NaN"

definition ToNumber :: "coercions \<Rightarrow> jsval \<Rightarrow> jsnum" where
  "ToNumber cv v = prim_to_number cv (ToPrimitive cv v)"

text \<open>
  Loose equality \<open>x == y\<close>: \<open>null\<close> and \<open>undefined\<close> equal each other only, two
  objects are compared by reference, an object meeting a primitive is converted first.
\<close>

fun prim_loose_eq :: "coercions \<Rightarrow> jsval \<Rightarrow> jsval \<Rightarrow> bool" where
  "prim_loose_eq cv (Str s) (Str t) = (s = t)"
| "prim_loose_eq cv x y = num_eq (prim_to_number cv x) (prim_to_number cv y)"

definition loose_eq :: "coercions \<Rightarrow> jsval \<Rightarrow> jsval \<Rightarrow> bool" where
  "loose_eq cv x y =
     (if nullish x \<or> nullish y then nullish x \<and> nullish y
      else if is_object x \<and> is_object y then same_reference x y
      else prim_loose_eq cv (ToPrimitive cv x) (ToPrimitive cv y))"

text \<open>
  \<open>SameValueZero\<close>, the comparison of \<open>Array.prototype.includes\<close>: no coercion,
  \<open>NaN\<close> equal to itself, objects by reference.
\<close>

fun same_value_zero :: "jsval \<Rightarrow> jsval \<Rightarrow> bool" where
  "same_value_zero Undefined Undefined = True"
| "same_value_zero Null Null = True"
| "same_value_zero (Bool a) (Bool b) = (a = b)"
| "same_value_zero (Num a) (Num b) = (a = b)"
| "same_value_zero (Str s) (Str t) = (s = t)"
| "same_value_zero (Builtin a) (Builtin b) = (a = b)"
| "same_value_zero _ _ = False"

fun array_includes :: "jsval \<Rightarrow> jsval \<Rightarrow> bool" where
  "array_includes (Arr xs) v = list_ex (\<lambda>x. same_value_zero x v) xs"
| "array_includes _ v = False"

section \<open>The query predicate language (store.js)\<close>

text \<open>
  The directive object of one key, \<open>{$equals, $includes, $in}\<close>: each operator is
  carried with a value, or not carried. Reading an operator that is not carried gives
  \<open>undefined\<close>.
\<close>

record directives =
  d_equals :: "jsval option"
  d_includes :: "jsval option"
  d_in :: "jsval option"

definition read_op :: "jsval option \<Rightarrow> jsval" where
  "read_op v = (case v of Some w \<Rightarrow> w | None \<Rightarrow> Undefined)"

type_synonym key_query = "(string \<times> directives) list"

text \<open>
  The body of the loop of \<open>matchesKeyQuery\<close>, over the keys of the query with their
  directive objects: each \<open>return false\<close> ends the loop, falling through goes on to
  the next key.
\<close>

fun matches_keys :: "coercions \<Rightarrow> jsobject \<Rightarrow> key_query \<Rightarrow> bool" where
  "matches_keys cv obj [] = True"
| "matches_keys cv obj ((currentKey, ds) # keysToBeChecked) =
     (if nullish (get_prop obj currentKey) then False
      else if \<not> nullish (read_op (d_equals ds)) then
        (if \<not> loose_eq cv (get_prop obj currentKey) (read_op (d_equals ds)) then False
         else matches_keys cv obj keysToBeChecked)
      else if \<not> nullish (read_op (d_includes ds)) then
        (if \<not> isArray (get_prop obj currentKey)
            \<or> \<not> array_includes (get_prop obj currentKey) (read_op (d_includes ds)) then False
         else matches_keys cv obj keysToBeChecked)
      else if \<not> nullish (read_op (d_in ds)) then
        (if \<not> isArray (read_op (d_in ds))
            \<or> \<not> array_includes (read_op (d_in ds)) (get_prop obj currentKey) then False
         else matches_keys cv obj keysToBeChecked)
      else matches_keys cv obj keysToBeChecked)"

text \<open>\<open>keyQuery || {}\<close>: a missing query has no keys.\<close>

definition matchesKeyQuery :: "coercions \<Rightarrow> jsobject \<Rightarrow> key_query option \<Rightarrow> bool" where
  "matchesKeyQuery cv obj keyQuery =
     matches_keys cv obj (case keyQuery of None \<Rightarrow> [] | Some q \<Rightarrow> q)"

definition where_query :: "coercions \<Rightarrow> key_query option \<Rightarrow> jsobject \<Rightarrow> bool" where
  "where_query cv filterQuery = (\<lambda>item. matchesKeyQuery cv item filterQuery)"

section \<open>The file based store (store.js)\<close>

text \<open>
  One read of the backing file, as the pipeline sees it: the array elements the
  streaming parser emits, then the end of the stream, or an error of the read or of
  the parse.
\<close>

datatype store_error = StoreError string

type_synonym file_read = "jsobject list \<times> store_error option"

text \<open>\<open>streamArray\<close> emits each element as \<open>{key: index, value: element}\<close>.\<close>

definition streamArray :: "jsobject list \<Rightarrow> (nat \<times> jsobject) list" where
  "streamArray elems = zip [0 ..< length elems] elems"

text \<open>
  \<open>FileBasedStore.filter\<close>: the last stage of the chain keeps an item or drops it
  (\<open>null\<close>), the \<open>data\<close> handler pushes the value of each kept item, \<open>end\<close> resolves
  with the array and \<open>error\<close> rejects.
\<close>

definition on_data :: "(jsobject \<Rightarrow> bool) \<Rightarrow> jsobject list \<Rightarrow> nat \<times> jsobject \<Rightarrow> jsobject list" where
  "on_data matcher result item =
     (case (if matcher (snd item) then Some item else None) of
        Some data \<Rightarrow> result @ [snd data]
      | None \<Rightarrow> result)"

definition FileBasedStore_filter :: "file_read \<Rightarrow> (jsobject \<Rightarrow> bool) \<Rightarrow> store_error + jsobject list" where
  "FileBasedStore_filter file matcher =
     (let result = foldl (on_data matcher) [] (streamArray (fst file))
      in case snd file of
           None \<Rightarrow> Inr result
         | Some err \<Rightarrow> Inl err)"

section \<open>Great-circle distance (geometry-utils.js)\<close>

record point =
  lat :: jsval
  lon :: jsval

definition EARTH_RADIUS_APPROX :: jsnum where
  "EARTH_RADIUS_APPROX = Fin 6371000"

definition Math_PI :: jsnum where
  "Math_PI = Fin pi"

text \<open>
  The Haversine formula, line by line. The arithmetic operators convert their operands
  with \<open>ToNumber\<close>; \<open>x * Math.PI/180\<close> multiplies first.
\<close>

definition distanceBetweenCoord :: "coercions \<Rightarrow> point \<Rightarrow> point \<Rightarrow> jsnum" where
  "distanceBetweenCoord cv p1 p2 =
     (let lat1Rad = num_div (num_mul (ToNumber cv (lat p1)) Math_PI) (Fin 180);
          lat2Rad = num_div (num_mul (ToNumber cv (lat p2)) Math_PI) (Fin 180);
          deltaLat = num_div (num_mul (num_sub (ToNumber cv (lat p2)) (ToNumber cv (lat p1))) Math_PI) (Fin 180);
          deltaLon = num_div (num_mul (num_sub (ToNumber cv (lon p2)) (ToNumber cv (lon p1))) Math_PI) (Fin 180);
          a = num_add
                (num_mul (Math_sin (num_div deltaLat (Fin 2))) (Math_sin (num_div deltaLat (Fin 2))))
                (num_mul
                   (num_mul (num_mul (Math_cos lat1Rad) (Math_cos lat2Rad))
                      (Math_sin (num_div deltaLon (Fin 2))))
                   (Math_sin (num_div deltaLon (Fin 2))));
          c = num_mul (Fin 2) (Math_atan2 (Math_sqrt a) (Math_sqrt (num_sub (Fin 1) a)))
      in num_mul EARTH_RADIUS_APPROX c)"

section \<open>The request handlers (index.js)\<close>

subsection \<open>Query parameters\<close>

text \<open>
  \<open>searchParams.get\<close> gives a string, or \<open>null\<close> when the parameter is missing.
\<close>

definition param_val :: "string option \<Rightarrow> jsval" where
  "param_val p = (case p of None \<Rightarrow> Null | Some s \<Rightarrow> Str s)"

text \<open>
  \<open>parseInt\<close> with no radix, on ASCII strings: leading white space, a sign, a
  \<open>0x\<close> prefix, then the longest run of digits of the radix; \<open>NaN\<close> when that run is
  empty. Its argument is converted to a string first, \<open>null\<close> to \<open>"null"\<close>. White space
  beyond ASCII is not stripped here and the integer is kept exact, not rounded to a
  double; the result is \<open>NaN\<close> exactly where JavaScript's is on ASCII input.
\<close>

definition StrWhiteSpaceChar :: "char \<Rightarrow> bool" where
  "StrWhiteSpaceChar c = (c \<in> set [CHR 0x09, CHR 0x0A, CHR 0x0B, CHR 0x0C, CHR 0x0D, CHR 0x20])"

definition digit_value :: "char \<Rightarrow> nat option" where
  "digit_value c =
     (let n = (of_char c :: nat)
      in if 48 \<le> n \<and> n \<le> 57 then Some (n - 48)
         else if 97 \<le> n \<and> n \<le> 122 then Some (n - 87)
         else if 65 \<le> n \<and> n \<le> 90 then Some (n - 55)
         else None)"

definition radix_digit :: "nat \<Rightarrow> char \<Rightarrow> bool" where
  "radix_digit R c = (case digit_value c of Some d \<Rightarrow> d < R | None \<Rightarrow> False)"

definition digits_value :: "nat \<Rightarrow> string \<Rightarrow> nat" where
  "digits_value R Z =
     foldl (\<lambda>n c. n * R + (case digit_value c of Some d \<Rightarrow> d | None \<Rightarrow> 0)) 0 Z"

definition parseInt_string :: "string \<Rightarrow> jsnum" where
  "parseInt_string inputString =
     (let S = dropWhile StrWhiteSpaceChar inputString;
          sign = (case S of c # _ \<Rightarrow> if c = CHR ''-'' then - 1 else 1 | [] \<Rightarrow> 1);
          S1 = (case S of c # cs \<Rightarrow> if c = CHR ''+'' \<or> c = CHR ''-'' then cs else S | [] \<Rightarrow> S);
          hex = (take 2 S1 = ''0x'' \<or> take 2 S1 = ''0X'');
          R = (if hex then 16 else 10);
          S2 = (if hex then drop 2 S1 else S1);
          Z = takeWhile (radix_digit R) S2
      in if Z = [] then NaN else Fin (sign * real (digits_value R Z)))"

definition parseInt :: "string option \<Rightarrow> jsnum" where
  "parseInt p = parseInt_string (case p of None \<Rightarrow> ''null'' | Some s \<Rightarrow> s)"

text \<open>
  Strict equality \<open>x === y\<close>: no coercion, \<open>NaN\<close> unequal to itself, objects by
  reference.
\<close>

fun strict_eq :: "jsval \<Rightarrow> jsval \<Rightarrow> bool" where
  "strict_eq Undefined Undefined = True"
| "strict_eq Null Null = True"
| "strict_eq (Bool a) (Bool b) = (a = b)"
| "strict_eq (Num a) (Num b) = num_eq a b"
| "strict_eq (Str s) (Str t) = (s = t)"
| "strict_eq (Builtin a) (Builtin b) = (a = b)"
| "strict_eq _ _ = False"

subsection \<open>The job registry\<close>

text \<open>
  \<open>areaProcessingJobs\<close>, a \<open>Map\<close> from job id to \<open>{result, isDone}\<close>, as the list of
  its entries; it starts empty.
\<close>

record job =
  result :: "jsobject list"
  isDone :: bool

type_synonym registry = "(string \<times> job) list"

definition areaProcessingJobs_init :: registry where
  "areaProcessingJobs_init = []"

definition Map_set :: "string \<Rightarrow> job \<Rightarrow> registry \<Rightarrow> registry" where
  "Map_set jobID j jobs = AList.update jobID j jobs"

definition Map_delete :: "string \<Rightarrow> registry \<Rightarrow> registry" where
  "Map_delete jobID jobs = AList.delete jobID jobs"

definition Map_has :: "string \<Rightarrow> registry \<Rightarrow> bool" where
  "Map_has jobID jobs = (map_of jobs jobID \<noteq> None)"

definition Map_get :: "string \<Rightarrow> registry \<Rightarrow> job option" where
  "Map_get jobID jobs = map_of jobs jobID"

definition Map_size :: "registry \<Rightarrow> nat" where
  "Map_size jobs = length jobs"

subsection \<open>Responses and pending work\<close>

datatype response =
    StatusText nat
  | Accepted_resultsUrl string
  | Ok_cities "jsobject list"

definition respondWithCode :: "nat \<Rightarrow> response" where
  "respondWithCode statusCode = StatusText statusCode"

text \<open>
  What a handler leaves behind when it suspends or returns: the origin lookup of an
  \<open>/area\<close> request (\<open>from\<close>, parsed distance, job id), the expiry timer of a job, and
  the scan of a job (origin city, radius, job id).
\<close>

datatype task =
    Lookup "string option" jsnum string
  | Expiry string
  | Scan jsobject jsnum string

definition endpoint :: string where
  "endpoint = ''http://127.0.0.1:8080''"

definition fixed_jobID :: string where
  "fixed_jobID = ''2152f96f-50c7-4d76-9e18-f7033bd14428''"

subsection \<open>GET /area\<close>

text \<open>
  The handler up to its first \<open>await\<close>. \<open>uuid\<close> is what \<open>crypto.randomUUID()\<close> returns
  if it is called.
\<close>

definition area_request ::
  "string option \<Rightarrow> string option \<Rightarrow> string \<Rightarrow> registry \<Rightarrow> response \<times> registry \<times> task list" where
  "area_request fromID distanceParam uuid jobs =
     (let distance = parseInt distanceParam
      in if nullish (param_val fromID) \<or> num_eq distance NaN then (respondWithCode 400, jobs, [])
         else
           (let jobID = (if Map_size jobs = 0 then fixed_jobID else uuid);
                jobs' = Map_set jobID \<lparr>result = [], isDone = False\<rparr> jobs
            in (Accepted_resultsUrl (endpoint @ ''/area-result/'' @ jobID), jobs',
                [Lookup fromID distance jobID])))"

text \<open>
  The custom matcher of \<open>scheduleAreaProcessingJob\<close>, and the function up to its
  \<open>await\<close>: it sets the expiry timer and starts the scan.
\<close>

definition area_matcher :: "coercions \<Rightarrow> jsobject \<Rightarrow> jsnum \<Rightarrow> jsobject \<Rightarrow> bool" where
  "area_matcher cv fromCity distance item =
     (\<not> loose_eq cv (get_prop item ''guid'') (get_prop fromCity ''guid'')
      \<and> num_lt
          (distanceBetweenCoord cv
             \<lparr>lat = get_prop fromCity ''latitude'', lon = get_prop fromCity ''longitude''\<rparr>
             \<lparr>lat = get_prop item ''latitude'', lon = get_prop item ''longitude''\<rparr>)
          distance)"

definition scheduleAreaProcessingJob :: "jsobject \<Rightarrow> jsnum \<Rightarrow> string \<Rightarrow> task list" where
  "scheduleAreaProcessingJob fromCity distance jobID = [Expiry jobID, Scan fromCity distance jobID]"

text \<open>
  The rest of the \<open>/area\<close> handler, run when the origin lookup settles with the given
  read of the file.
\<close>

definition area_lookup_settled ::
  "coercions \<Rightarrow> file_read \<Rightarrow> string option \<Rightarrow> jsnum \<Rightarrow> string \<Rightarrow> registry \<Rightarrow> registry \<times> task list" where
  "area_lookup_settled cv file fromID distance jobID jobs =
     (case FileBasedStore_filter file
             (where_query cv
                (Some [(''guid'', \<lparr>d_equals = Some (param_val fromID), d_includes = None, d_in = None\<rparr>)])) of
        Inr res \<Rightarrow>
          (case find (\<lambda>city. strict_eq (get_prop city ''guid'') (param_val fromID)) res of
             Some fromCity \<Rightarrow>
               (jobs, scheduleAreaProcessingJob fromCity (num_mul distance (Fin 1000)) jobID)
           | None \<Rightarrow> (jobs, []))
      | Inl err \<Rightarrow> (Map_delete jobID jobs, []))"

text \<open>
  The rest of \<open>scheduleAreaProcessingJob\<close>, run when the scan settles, and the
  callback of the expiry timer.
\<close>

definition scan_settled ::
  "coercions \<Rightarrow> file_read \<Rightarrow> jsobject \<Rightarrow> jsnum \<Rightarrow> string \<Rightarrow> registry \<Rightarrow> registry" where
  "scan_settled cv file fromCity distance jobID jobs =
     (case FileBasedStore_filter file (area_matcher cv fromCity distance) of
        Inr res \<Rightarrow> Map_set jobID \<lparr>result = res, isDone = True\<rparr> jobs
      | Inl err \<Rightarrow> Map_delete jobID jobs)"

definition expiry_fired :: "string \<Rightarrow> registry \<Rightarrow> registry" where
  "expiry_fired jobID jobs = Map_delete jobID jobs"

text \<open>Running one pending task against a read of the file.\<close>

fun run_task :: "coercions \<Rightarrow> file_read \<Rightarrow> task \<Rightarrow> registry \<Rightarrow> registry \<times> task list" where
  "run_task cv file (Lookup fromID distance jobID) jobs =
     area_lookup_settled cv file fromID distance jobID jobs"
| "run_task cv file (Expiry jobID) jobs = (expiry_fired jobID jobs, [])"
| "run_task cv file (Scan fromCity distance jobID) jobs =
     (scan_settled cv file fromCity distance jobID jobs, [])"

subsection \<open>GET /area-result/:areaJobID\<close>

text \<open>
  \<open>has\<close> and \<open>get\<close> read the same entry, so \<open>get\<close> finds one whenever \<open>has\<close> said so.
\<close>

definition area_result :: "string \<Rightarrow> registry \<Rightarrow> response" where
  "area_result areaJobID jobs =
     (if \<not> Map_has areaJobID jobs then respondWithCode 404
      else case Map_get areaJobID jobs of
             Some j \<Rightarrow> if \<not> isDone j then respondWithCode 202 else Ok_cities (result j)
           | None \<Rightarrow> respondWithCode 404)"

section \<open>The matching rule as the specification words it\<close>

datatype directive = Equals jsval | Includes jsval | MemberOf jsval

text \<open>
  \<open>equals\<close>: the field loosely equals the value; \<open>includes\<close>: the field is a sequence
  holding the value; \<open>memberOf\<close>: the given set is a sequence holding the field.
\<close>

fun directive_succeeds :: "coercions \<Rightarrow> jsval \<Rightarrow> directive \<Rightarrow> bool" where
  "directive_succeeds cv v (Equals w) = loose_eq cv v w"
| "directive_succeeds cv v (Includes w) = (isArray v \<and> array_includes v w)"
| "directive_succeeds cv v (MemberOf s) = (isArray s \<and> array_includes s v)"

text \<open>
  The rule as stated: of the directives a field carries, the first in the order
  \<open>equals\<close>, \<open>includes\<close>, \<open>memberOf\<close> (\<open>$in\<close>) is the one applied, whatever its value;
  the field matches when its value on the record is neither \<open>null\<close> nor missing and
  that directive succeeds.
\<close>

definition carried_directive :: "directives \<Rightarrow> directive option" where
  "carried_directive ds =
     (case d_equals ds of
        Some v \<Rightarrow> Some (Equals v)
      | None \<Rightarrow>
          (case d_includes ds of
             Some v \<Rightarrow> Some (Includes v)
           | None \<Rightarrow>
               (case d_in ds of
                  Some v \<Rightarrow> Some (MemberOf v)
                | None \<Rightarrow> None)))"

definition stated_field_matches :: "coercions \<Rightarrow> jsobject \<Rightarrow> string \<times> directives \<Rightarrow> bool" where
  "stated_field_matches cv obj kd =
     (\<not> nullish (get_prop obj (fst kd))
      \<and> (case carried_directive (snd kd) of
           None \<Rightarrow> True
         | Some d \<Rightarrow> directive_succeeds cv (get_prop obj (fst kd)) d))"

text \<open>
  The rule as amended: a directive counts as given only when it is carried with a value
  that is neither \<open>null\<close> nor \<open>undefined\<close>; the first given one in the same order is
  the one applied, and a field with no given directive only has to be there.
\<close>

definition given_directive :: "directives \<Rightarrow> directive option" where
  "given_directive ds =
     (if \<not> nullish (read_op (d_equals ds)) then Some (Equals (read_op (d_equals ds)))
      else if \<not> nullish (read_op (d_includes ds)) then Some (Includes (read_op (d_includes ds)))
      else if \<not> nullish (read_op (d_in ds)) then Some (MemberOf (read_op (d_in ds)))
      else None)"

definition field_matches :: "coercions \<Rightarrow> jsobject \<Rightarrow> string \<times> directives \<Rightarrow> bool" where
  "field_matches cv obj kd =
     (\<not> nullish (get_prop obj (fst kd))
      \<and> (case given_directive (snd kd) of
           None \<Rightarrow> True
         | Some d \<Rightarrow> directive_succeeds cv (get_prop obj (fst kd)) d))"

text \<open>A directive object none of whose carried operators has the value \<open>null\<close> or \<open>undefined\<close>.\<close>

definition no_null_operator :: "directives \<Rightarrow> bool" where
  "no_null_operator ds =
     ((case d_equals ds of Some v \<Rightarrow> \<not> nullish v | None \<Rightarrow> True)
      \<and> (case d_includes ds of Some v \<Rightarrow> \<not> nullish v | None \<Rightarrow> True)
      \<and> (case d_in ds of Some v \<Rightarrow> \<not> nullish v | None \<Rightarrow> True))"

text \<open>The query \<open>{tags: {$includes: t}}\<close>.\<close>

definition tags_query :: "string \<Rightarrow> key_query option" where
  "tags_query t = Some [(''tags'', \<lparr>d_equals = None, d_includes = Some (Str t), d_in = None\<rparr>)]"

text \<open>The quantity \<open>a\<close> of the Haversine formula, on real coordinates in degrees.\<close>

definition haversine_a :: "real \<Rightarrow> real \<Rightarrow> real \<Rightarrow> real \<Rightarrow> real" where
  "haversine_a la1 lo1 la2 lo2 =
     sin ((la2 - la1) * pi / 180 / 2) * sin ((la2 - la1) * pi / 180 / 2)
     + cos (la1 * pi / 180) * cos (la2 * pi / 180)
       * (sin ((lo2 - lo1) * pi / 180 / 2) * sin ((lo2 - lo1) * pi / 180 / 2))"

section \<open>Concrete data for the examples\<close>

text \<open>
  The examples compare strings with strings and compute with numbers, so neither
  conversion of \<open>coercions\<close> is ever called in them; they run with this instance.
\<close>

definition no_coercion :: coercions where
  "no_coercion = \<lparr>StringToNumber = (\<lambda>s. NaN), ObjectToPrimitive = (\<lambda>v. [])\<rparr>"

text \<open>Two cities on the equator, half the globe apart, and a tagged record.\<close>

definition origin_city :: jsobject where
  "origin_city =
     plain_object [(''guid'', Str ''a''), (''latitude'', Num (Fin 0)), (''longitude'', Num (Fin 0))]"

definition far_city :: jsobject where
  "far_city =
     plain_object [(''guid'', Str ''b''), (''latitude'', Num (Fin 0)), (''longitude'', Num (Fin 180))]"

definition sample_city :: jsobject where
  "sample_city =
     plain_object
       [(''guid'', Str ''c''), (''tags'', Arr [Str ''x'', Str ''y'']), (''isActive'', Bool True)]"

text \<open>
  A query on two fields, the second carrying two directives; a query whose only
  directive is carried with the value \<open>null\<close>; and a query on a field that a plain
  object inherits.
\<close>

definition sample_query :: key_query where
  "sample_query =
     [(''tags'', \<lparr>d_equals = None, d_includes = Some (Str ''y''), d_in = None\<rparr>),
      (''isActive'', \<lparr>d_equals = Some (Bool True), d_includes = Some (Str ''ignored''), d_in = None\<rparr>)]"

definition null_equals_query :: key_query where
  "null_equals_query = [(''isActive'', \<lparr>d_equals = Some Null, d_includes = None, d_in = None\<rparr>)]"

definition inherited_key_query :: key_query where
  "inherited_key_query = [(''constructor'', \<lparr>d_equals = None, d_includes = None, d_in = None\<rparr>)]"

section \<open>The query predicate language: results\<close>

lemma matches_keys_step:
  "matches_keys cv obj (kd # q) = (field_matches cv obj kd \<and> matches_keys cv obj q)"
  by (cases kd) (auto simp add: field_matches_def given_directive_def)

lemma matches_keys_all: "matches_keys cv obj q = list_all (field_matches cv obj) q"
proof (induction q)
  case Nil
  show ?case by simp
next
  case (Cons kd q)
  show ?case
    by (simp add: matches_keys_step Cons.IH del: matches_keys.simps)
qed

text \<open>
  Claim C6, as amended. For every record and every query, the compiled predicate is
  true iff for every queried field the value read from the record, \<open>obj[key]\<close>, own or
  inherited, is neither \<open>null\<close> nor \<open>undefined\<close> and the field's directive succeeds.
  A directive counts as given only when it is carried with a value that is neither
  \<open>null\<close> nor \<open>undefined\<close>; of several given directives on one field exactly one is
  applied, the first in the order equals, includes, memberOf; a field with no given
  directive only has to be there (\<open>field_matches\<close>, \<open>given_directive\<close>).
\<close>

theorem matchesKeyQuery_all_fields:
  "matchesKeyQuery cv obj (Some q) \<longleftrightarrow> (\<forall>kd \<in> set q. field_matches cv obj kd)"
  by (simp add: matchesKeyQuery_def matches_keys_all list_all_iff)

text \<open>
  The record \<open>sample_city\<close> under a query on two fields, the second one carrying both
  \<open>$equals\<close> and \<open>$includes\<close>: only \<open>$equals\<close> is applied, and the record matches.
\<close>

theorem matchesKeyQuery_all_fields_witness:
  "list_all (field_matches no_coercion sample_city) sample_query
   \<and> given_directive (snd (sample_query ! 1)) = Some (Equals (Bool True))
   \<and> matchesKeyQuery no_coercion sample_city (Some sample_query)"
proof -
  have a: "list_all (field_matches no_coercion sample_city) sample_query"
    by (simp add: sample_query_def sample_city_def plain_object_def field_matches_def
        given_directive_def read_op_def get_prop_def loose_eq_def ToPrimitive_def)
  have c: "given_directive (snd (sample_query ! 1)) = Some (Equals (Bool True))"
    by (simp add: sample_query_def given_directive_def read_op_def)
  from a have "\<forall>kd \<in> set sample_query. field_matches no_coercion sample_city kd"
    by (simp add: list_all_iff)
  then show ?thesis
    using a c matchesKeyQuery_all_fields [of no_coercion sample_city sample_query] by simp
qed

text \<open>
  Claim C6 as stated fails. The query \<open>{isActive: {$equals: null}}\<close> carries one
  directive, \<open>equals(null)\<close>; on \<open>sample_city\<close>, whose \<open>isActive\<close> is \<open>true\<close>, that
  directive does not succeed, so by the stated rule the record does not match. The
  compiled predicate skips the directive and returns true.
\<close>

theorem matchesKeyQuery_null_directive_counterexample:
  "matchesKeyQuery no_coercion sample_city (Some null_equals_query)
   \<and> carried_directive (snd (null_equals_query ! 0)) = Some (Equals Null)
   \<and> \<not> directive_succeeds no_coercion (get_prop sample_city ''isActive'') (Equals Null)
   \<and> \<not> list_all (stated_field_matches no_coercion sample_city) null_equals_query"
  by (simp add: matchesKeyQuery_def null_equals_query_def sample_city_def plain_object_def
      stated_field_matches_def carried_directive_def read_op_def get_prop_def loose_eq_def)

text \<open>
  Where no carried operator has the value \<open>null\<close> or \<open>undefined\<close>, the given directive
  is the carried one, and the compiled predicate is the rule as stated.
\<close>

lemma given_is_carried: "no_null_operator ds \<Longrightarrow> given_directive ds = carried_directive ds"
  by (auto simp add: no_null_operator_def given_directive_def carried_directive_def read_op_def
      split: option.splits)

lemma matchesKeyQuery_as_stated:
  assumes "list_all (\<lambda>kd. no_null_operator (snd kd)) q"
  shows "matchesKeyQuery cv obj (Some q) \<longleftrightarrow> list_all (stated_field_matches cv obj) q"
proof -
  have "field_matches cv obj kd = stated_field_matches cv obj kd" if "kd \<in> set q" for kd
    using assms that
    by (simp add: list_all_iff field_matches_def stated_field_matches_def given_is_carried)
  then show ?thesis
    by (simp add: matchesKeyQuery_def matches_keys_all list_all_iff)
qed

text \<open>
  A key that a plain object inherits from \<open>Object.prototype\<close> reads as a built-in
  object, not as \<open>undefined\<close>: \<open>where({constructor: {}})\<close> holds of a record that has
  no such member of its own, and a key that nothing provides does not.
\<close>

lemma matchesKeyQuery_inherited_key:
  "get_prop sample_city ''constructor'' = Builtin ''constructor''
   \<and> matchesKeyQuery cv sample_city (Some inherited_key_query)
   \<and> \<not> matchesKeyQuery cv sample_city
         (Some [(''population'', \<lparr>d_equals = None, d_includes = None, d_in = None\<rparr>)])"
  by (simp add: matchesKeyQuery_def inherited_key_query_def sample_city_def plain_object_def
      Object_prototype_keys_def read_op_def get_prop_def)

section \<open>The store: results\<close>

lemma foldl_on_data: "foldl (on_data m) acc ps = acc @ filter m (map snd ps)"
  by (induction ps arbitrary: acc) (simp_all add: on_data_def)

lemma filter_resolves: "FileBasedStore_filter (elems, None) m = Inr (filter m elems)"
  by (simp add: FileBasedStore_filter_def foldl_on_data streamArray_def)

text \<open>
  Claim C7. On a read of the file that ends normally, \<open>filter\<close> resolves with exactly
  the records that satisfy the predicate, in file order; on a read that ends with an
  error of the read or of the parse, it rejects with that error.
\<close>

theorem filter_resolves_matches_or_rejects:
  "FileBasedStore_filter (elems, None) m = Inr (filter m elems)
   \<and> FileBasedStore_filter (elems, Some err) m = Inl err"
  by (simp add: FileBasedStore_filter_def foldl_on_data streamArray_def)

lemma includes_str: "array_includes v (Str t) \<longleftrightarrow> (\<exists>ts. v = Arr ts \<and> Str t \<in> set ts)"
proof (cases v)
  case (Arr ts)
  have "same_value_zero x (Str t) \<longleftrightarrow> x = Str t" for x
    by (cases x) simp_all
  then show ?thesis
    using Arr by (auto simp: list_ex_iff)
qed simp_all

text \<open>
  Claim C8. Filtering the dataset with \<open>{tags: includes(t)}\<close> returns a record \<open>R\<close> of
  the dataset iff \<open>t\<close> is an element of \<open>R.tags\<close>.
\<close>

theorem tags_includes_filter:
  "\<exists>res. FileBasedStore_filter (dataset, None) (where_query cv (tags_query t)) = Inr res
     \<and> (\<forall>R \<in> set dataset.
          R \<in> set res \<longleftrightarrow> (\<exists>ts. get_prop R ''tags'' = Arr ts \<and> Str t \<in> set ts))"
proof -
  have m: "where_query cv (tags_query t) R
             \<longleftrightarrow> (\<exists>ts. get_prop R ''tags'' = Arr ts \<and> Str t \<in> set ts)" for R
    by (auto simp add: where_query_def matchesKeyQuery_def tags_query_def includes_str read_op_def)
  show ?thesis
    by (simp add: filter_resolves m)
qed

text \<open>
  A dataset of two records: \<open>sample_city\<close> has the tag \<open>y\<close> and is returned,
  \<open>origin_city\<close> has no tags and is not.
\<close>

theorem tags_includes_filter_witness:
  "sample_city \<in> set [sample_city, origin_city]
   \<and> (\<exists>ts. get_prop sample_city ''tags'' = Arr ts \<and> Str ''y'' \<in> set ts)
   \<and> (\<exists>res. FileBasedStore_filter ([sample_city, origin_city], None)
               (where_query no_coercion (tags_query ''y'')) = Inr res
        \<and> sample_city \<in> set res \<and> origin_city \<notin> set res)"
proof -
  have t: "\<exists>ts. get_prop sample_city ''tags'' = Arr ts \<and> Str ''y'' \<in> set ts"
    by (simp add: sample_city_def plain_object_def get_prop_def)
  have n: "\<not> (\<exists>ts. get_prop origin_city ''tags'' = Arr ts \<and> Str ''y'' \<in> set ts)"
    by (simp add: origin_city_def plain_object_def Object_prototype_keys_def get_prop_def)
  show ?thesis
    using t n tags_includes_filter [of "[sample_city, origin_city]" no_coercion "''y''"] by auto
qed

section \<open>Great-circle distance: results\<close>

lemma sin_half_diff_sq:
  fixes x y :: real
  shows "sin ((y - x) / 2) * sin ((y - x) / 2) + cos x * cos y
           = cos ((x + y) / 2) * cos ((x + y) / 2)"
proof -
  have A: "sin (w / 2) * sin (w / 2) = (1 - cos w) / 2" for w :: real
    using cos_double_sin [of "w / 2"] by (simp add: power2_eq_square)
  have B: "cos (w / 2) * cos (w / 2) = (1 + cos w) / 2" for w :: real
    using cos_double_cos [of "w / 2"] by (simp add: power2_eq_square)
  have C: "cos (y - x) + cos (x + y) = 2 * (cos x * cos y)"
    by (simp add: cos_add cos_diff)
  show ?thesis
    unfolding A B using C by (simp add: field_simps)
qed

lemma convex_unit:
  fixes p q u :: real
  assumes "0 \<le> p" "p \<le> 1" "0 \<le> q" "q \<le> 1" "0 \<le> u" "u \<le> 1"
  shows "0 \<le> p * (1 - u) + q * u" and "p * (1 - u) + q * u \<le> 1"
proof -
  show "0 \<le> p * (1 - u) + q * u"
    using assms by simp
  have "p * (1 - u) \<le> 1 * (1 - u)"
    using assms by (intro mult_right_mono) auto
  moreover have "q * u \<le> 1 * u"
    using assms by (intro mult_right_mono) auto
  ultimately show "p * (1 - u) + q * u \<le> 1"
    by simp
qed

lemma sq_unit:
  fixes z :: real
  shows "0 \<le> sin z * sin z" "sin z * sin z \<le> 1" "0 \<le> cos z * cos z" "cos z * cos z \<le> 1"
proof -
  show "0 \<le> sin z * sin z" "0 \<le> cos z * cos z"
    by simp_all
  have "sin z * sin z + cos z * cos z = 1"
    using sin_cos_squared_add [of z] by (simp add: power2_eq_square)
  moreover have "0 \<le> sin z * sin z" "0 \<le> cos z * cos z"
    by simp_all
  ultimately show "sin z * sin z \<le> 1" "cos z * cos z \<le> 1"
    by linarith+
qed

text \<open>
  On real coordinates \<open>a\<close> lies between 0 and 1, so both square roots of the formula
  are taken of non-negative numbers: \<open>a\<close> is a mean of a squared sine and a squared
  cosine, weighted by the squared sine of half the longitude difference.
\<close>

lemma haversine_a_range:
  "0 \<le> haversine_a la1 lo1 la2 lo2" "haversine_a la1 lo1 la2 lo2 \<le> 1"
proof -
  define x where "x = la1 * pi / 180"
  define y where "y = la2 * pi / 180"
  define p where "p = sin ((y - x) / 2) * sin ((y - x) / 2)"
  define q where "q = cos ((x + y) / 2) * cos ((x + y) / 2)"
  define u where "u = sin ((lo2 - lo1) * pi / 180 / 2) * sin ((lo2 - lo1) * pi / 180 / 2)"
  have arg: "(la2 - la1) * pi / 180 / 2 = (y - x) / 2"
    by (simp add: x_def y_def field_simps)
  have q: "q = p + cos x * cos y"
    unfolding p_def q_def by (rule sin_half_diff_sq [symmetric])
  have "haversine_a la1 lo1 la2 lo2 = p + cos x * cos y * u"
    unfolding haversine_a_def arg p_def u_def x_def y_def by simp
  also have "\<dots> = p * (1 - u) + q * u"
    unfolding q by (simp add: algebra_simps)
  finally have eq: "haversine_a la1 lo1 la2 lo2 = p * (1 - u) + q * u" .
  have b: "0 \<le> p" "p \<le> 1" "0 \<le> q" "q \<le> 1" "0 \<le> u" "u \<le> 1"
    unfolding p_def q_def u_def by (rule sq_unit)+
  show "0 \<le> haversine_a la1 lo1 la2 lo2"
    unfolding eq using b by (rule convex_unit)
  show "haversine_a la1 lo1 la2 lo2 \<le> 1"
    unfolding eq using b by (rule convex_unit)
qed

text \<open>
  The distance between two points with finite numeric coordinates, in closed form. This
  is the value in exact arithmetic; where the doubles of the code round \<open>a\<close> above 1,
  the code returns \<open>NaN\<close> instead.
\<close>

lemma distance_numeric:
  "distanceBetweenCoord cv \<lparr>lat = Num (Fin la1), lon = Num (Fin lo1)\<rparr>
       \<lparr>lat = Num (Fin la2), lon = Num (Fin lo2)\<rparr>
   = Fin (6371000 * (2 * atan2_real (sqrt (haversine_a la1 lo1 la2 lo2))
                            (sqrt (1 - haversine_a la1 lo1 la2 lo2))))"
proof -
  define a where "a = haversine_a la1 lo1 la2 lo2"
  have r: "\<not> a < 0" "\<not> 1 - a < 0"
    using haversine_a_range [of la1 lo1 la2 lo2] by (simp_all add: a_def)
  have e: "sin ((la2 - la1) * pi / 180 / 2) * sin ((la2 - la1) * pi / 180 / 2)
           + cos (la1 * pi / 180) * cos (la2 * pi / 180) * sin ((lo2 - lo1) * pi / 180 / 2)
             * sin ((lo2 - lo1) * pi / 180 / 2) = a"
    unfolding a_def haversine_a_def by (simp only: mult.assoc)
  have "distanceBetweenCoord cv \<lparr>lat = Num (Fin la1), lon = Num (Fin lo1)\<rparr>
            \<lparr>lat = Num (Fin la2), lon = Num (Fin lo2)\<rparr>
      = num_mul EARTH_RADIUS_APPROX
          (num_mul (Fin 2) (Math_atan2 (Math_sqrt (Fin a)) (Math_sqrt (num_sub (Fin 1) (Fin a)))))"
    by (simp only: distanceBetweenCoord_def Let_def ToNumber_def ToPrimitive_def point.select_convs
        is_object.simps if_False prim_to_number.simps num_div_def num_mul_def num_sub_def
        num_add_def num_lift2.simps Math_sin.simps Math_cos.simps Math_PI_def e)
  also have "\<dots> = Fin (6371000 * (2 * atan2_real (sqrt a) (sqrt (1 - a))))"
    using r by (simp add: num_mul_def num_sub_def EARTH_RADIUS_APPROX_def)
  finally show ?thesis
    by (simp only: a_def)
qed

section \<open>The area search: results\<close>

lemmas parseInt_eval = parseInt_def parseInt_string_def StrWhiteSpaceChar_def radix_digit_def
  digit_value_def digits_value_def

lemma num_eq_NaN: "num_eq x NaN = False"
  by (cases x) simp_all

lemma num_lt_NaN: "num_lt x NaN = False"
  by (cases x) simp_all

text \<open>
  The validation of \<open>/area\<close> compares the parsed distance with \<open>NaN\<close> by \<open>==\<close>, which
  is never true: a request with a \<open>from\<close> parameter is accepted whatever its distance
  is. Without \<open>from\<close> it is answered 400 and nothing is created.
\<close>

lemma area_request_accepts:
  "area_request (Some f) d uuid jobs =
     (Accepted_resultsUrl (endpoint @ ''/area-result/'' @ (if jobs = [] then fixed_jobID else uuid)),
      Map_set (if jobs = [] then fixed_jobID else uuid) \<lparr>result = [], isDone = False\<rparr> jobs,
      [Lookup (Some f) (parseInt d) (if jobs = [] then fixed_jobID else uuid)])"
  by (simp add: area_request_def param_val_def num_eq_NaN Map_size_def Let_def)

lemma area_request_rejects: "area_request None d uuid jobs = (StatusText 400, jobs, [])"
  by (simp add: area_request_def param_val_def respondWithCode_def)

lemma scan_settled_ok:
  "scan_settled cv (elems, None) fromCity d jobID jobs =
     Map_set jobID \<lparr>result = filter (area_matcher cv fromCity d) elems, isDone = True\<rparr> jobs"
  by (simp add: scan_settled_def filter_resolves)

lemma scan_settled_error:
  "scan_settled cv (elems, Some err) fromCity d jobID jobs = Map_delete jobID jobs"
  by (simp add: scan_settled_def FileBasedStore_filter_def)

lemma Map_get_set: "Map_get k (Map_set k j jobs) = Some j"
  by (simp add: Map_get_def Map_set_def update_conv')

lemma Map_get_delete: "Map_get k (Map_delete k jobs) = None"
  by (simp add: Map_get_def Map_delete_def delete_conv')

lemma guid_query:
  "where_query cv (Some [(''guid'', \<lparr>d_equals = Some (Str f), d_includes = None, d_in = None\<rparr>)]) R
     \<longleftrightarrow> \<not> nullish (get_prop R ''guid'') \<and> loose_eq cv (get_prop R ''guid'') (Str f)"
  by (simp add: where_query_def matchesKeyQuery_def read_op_def)

lemma loose_eq_str: "loose_eq cv (Str s) (Str t) \<longleftrightarrow> s = t"
  by (simp add: loose_eq_def ToPrimitive_def)

text \<open>
  When a record of the dataset has the requested \<open>guid\<close>, the lookup finds an origin
  city, leaves the registry as it is and schedules the expiry and the scan, with
  the parsed distance multiplied by 1000 as the radius.
\<close>

lemma lookup_found:
  assumes "c \<in> set dataset" "get_prop c ''guid'' = Str f"
  shows "\<exists>fromCity. \<forall>d jobID jobs.
           area_lookup_settled cv (dataset, None) (Some f) d jobID jobs
             = (jobs, [Expiry jobID, Scan fromCity (num_mul d (Fin 1000)) jobID])"
proof -
  let ?res = "filter (where_query cv
     (Some [(''guid'', \<lparr>d_equals = Some (Str f), d_includes = None, d_in = None\<rparr>)])) dataset"
  have "c \<in> set ?res"
    using assms by (simp add: guid_query loose_eq_str)
  moreover have "strict_eq (get_prop c ''guid'') (Str f)"
    using assms by simp
  ultimately have "find (\<lambda>city. strict_eq (get_prop city ''guid'') (Str f)) ?res \<noteq> None"
    unfolding find_None_iff by blast
  then obtain fromCity
    where "find (\<lambda>city. strict_eq (get_prop city ''guid'') (Str f)) ?res = Some fromCity"
    by blast
  then show ?thesis
    by (simp add: area_lookup_settled_def filter_resolves param_val_def scheduleAreaProcessingJob_def)
qed

text \<open>
  When no record has the requested \<open>guid\<close>, the lookup changes nothing and schedules
  nothing: neither a scan nor an expiry.
\<close>

lemma lookup_not_found:
  assumes "\<forall>c \<in> set dataset. get_prop c ''guid'' \<noteq> Str f"
  shows "area_lookup_settled cv (dataset, None) (Some f) d jobID jobs = (jobs, [])"
proof -
  have s: "strict_eq v (Str f) \<longleftrightarrow> v = Str f" for v
    by (cases v) simp_all
  have "find (\<lambda>city. strict_eq (get_prop city ''guid'') (Str f)) xs = None"
    if "set xs \<subseteq> set dataset" for xs
    unfolding find_None_iff using that assms by (auto simp: s)
  then show ?thesis
    by (simp add: area_lookup_settled_def filter_resolves param_val_def)
qed

lemma lookup_error:
  "area_lookup_settled cv (elems, Some err) fromID d jobID jobs = (Map_delete jobID jobs, [])"
  by (simp add: area_lookup_settled_def FileBasedStore_filter_def)

lemma far_distance:
  "distanceBetweenCoord cv \<lparr>lat = Num (Fin 0), lon = Num (Fin 0)\<rparr>
       \<lparr>lat = Num (Fin 0), lon = Num (Fin 180)\<rparr>
     = Fin (6371000 * pi)"
proof -
  have "haversine_a 0 0 0 180 = 1"
    by (simp add: haversine_a_def)
  then show ?thesis
    by (simp add: distance_numeric atan2_real_def)
qed

text \<open>
  Claim C1 says that the job of an \<open>/area\<close> request with radius \<open>d\<close> in meters holds
  the records closer than \<open>d\<close> meters to the origin. The handler multiplies the parsed
  distance by 1000 before the scan. Here the dataset is \<open>origin_city\<close> and \<open>far_city\<close>,
  \<open>6371000 * \<pi>\<close> meters apart, and the request is \<open>/area?from=a&distance=1000000\<close>: the
  scan runs with the radius \<open>1000000000\<close> and the job's result is \<open>far_city\<close>, which is
  not closer than \<open>1000000\<close> meters.
\<close>

theorem area_radius_scaled_by_1000:
  "area_request (Some ''a'') (Some ''1000000'') ''u'' [] =
     (Accepted_resultsUrl (endpoint @ ''/area-result/'' @ fixed_jobID),
      [(fixed_jobID, \<lparr>result = [], isDone = False\<rparr>)],
      [Lookup (Some ''a'') (Fin 1000000) fixed_jobID])
   \<and> area_lookup_settled no_coercion ([origin_city, far_city], None) (Some ''a'') (Fin 1000000)
        fixed_jobID [(fixed_jobID, \<lparr>result = [], isDone = False\<rparr>)] =
     ([(fixed_jobID, \<lparr>result = [], isDone = False\<rparr>)],
      [Expiry fixed_jobID, Scan origin_city (Fin 1000000000) fixed_jobID])
   \<and> scan_settled no_coercion ([origin_city, far_city], None) origin_city (Fin 1000000000)
        fixed_jobID [(fixed_jobID, \<lparr>result = [], isDone = False\<rparr>)] =
     [(fixed_jobID, \<lparr>result = [far_city], isDone = True\<rparr>)]
   \<and> \<not> num_lt
         (distanceBetweenCoord no_coercion
            \<lparr>lat = get_prop origin_city ''latitude'', lon = get_prop origin_city ''longitude''\<rparr>
            \<lparr>lat = get_prop far_city ''latitude'', lon = get_prop far_city ''longitude''\<rparr>)
         (Fin 1000000)"
proof -
  have p: "parseInt (Some ''1000000'') = Fin 1000000"
    by (simp add: parseInt_eval)
  have 1: "area_request (Some ''a'') (Some ''1000000'') ''u'' [] =
     (Accepted_resultsUrl (endpoint @ ''/area-result/'' @ fixed_jobID),
      [(fixed_jobID, \<lparr>result = [], isDone = False\<rparr>)],
      [Lookup (Some ''a'') (Fin 1000000) fixed_jobID])"
    by (simp add: area_request_accepts p Map_set_def)
  have 2: "area_lookup_settled no_coercion ([origin_city, far_city], None) (Some ''a'')
             (Fin 1000000) fixed_jobID jobs =
     (jobs, [Expiry fixed_jobID, Scan origin_city (Fin 1000000000) fixed_jobID])" for jobs
    by (simp add: area_lookup_settled_def filter_resolves param_val_def guid_query loose_eq_str
        origin_city_def far_city_def plain_object_def get_prop_def scheduleAreaProcessingJob_def num_mul_def)
  have d: "distanceBetweenCoord no_coercion
          \<lparr>lat = get_prop origin_city ''latitude'', lon = get_prop origin_city ''longitude''\<rparr>
          \<lparr>lat = get_prop far_city ''latitude'', lon = get_prop far_city ''longitude''\<rparr>
        = Fin (6371000 * pi)"
    by (simp add: origin_city_def far_city_def plain_object_def get_prop_def far_distance)
  have lo: "\<not> 6371000 * pi < (1000000 :: real)"
    using pi_ge_two by simp
  have hi: "6371000 * pi < (1000000000 :: real)"
    using pi_less_4 by simp
  have m1: "\<not> area_matcher no_coercion origin_city (Fin 1000000000) origin_city"
    by (simp add: area_matcher_def origin_city_def plain_object_def get_prop_def loose_eq_str)
  have m2: "area_matcher no_coercion origin_city (Fin 1000000000) far_city"
    unfolding area_matcher_def d using hi
    by (simp add: origin_city_def far_city_def plain_object_def get_prop_def loose_eq_str)
  have 3: "scan_settled no_coercion ([origin_city, far_city], None) origin_city (Fin 1000000000)
        fixed_jobID [(fixed_jobID, \<lparr>result = [], isDone = False\<rparr>)] =
     [(fixed_jobID, \<lparr>result = [far_city], isDone = True\<rparr>)]"
    by (simp add: scan_settled_ok m1 m2 Map_set_def)
  show ?thesis
    unfolding d using 1 2 3 lo by simp
qed

text \<open>
  Claim C2 says that when the origin lookup succeeds but finds no record, the job entry
  is deleted and \<open>/area-result\<close> answers 404 from then on. Here the request is
  \<open>/area?from=zzz&distance=5\<close> on a dataset with no such \<open>guid\<close>: the lookup leaves the
  entry in the registry, pending, schedules no expiry, and \<open>/area-result\<close> answers 202.
\<close>

theorem area_unknown_origin_stays_pending:
  "area_request (Some ''zzz'') (Some ''5'') ''u'' [] =
     (Accepted_resultsUrl (endpoint @ ''/area-result/'' @ fixed_jobID),
      [(fixed_jobID, \<lparr>result = [], isDone = False\<rparr>)],
      [Lookup (Some ''zzz'') (Fin 5) fixed_jobID])
   \<and> area_lookup_settled no_coercion ([origin_city, far_city], None) (Some ''zzz'') (Fin 5)
        fixed_jobID [(fixed_jobID, \<lparr>result = [], isDone = False\<rparr>)] =
     ([(fixed_jobID, \<lparr>result = [], isDone = False\<rparr>)], [])
   \<and> area_result fixed_jobID [(fixed_jobID, \<lparr>result = [], isDone = False\<rparr>)] = StatusText 202"
proof -
  have p: "parseInt (Some ''5'') = Fin 5"
    by (simp add: parseInt_eval)
  have 1: "area_request (Some ''zzz'') (Some ''5'') ''u'' [] =
     (Accepted_resultsUrl (endpoint @ ''/area-result/'' @ fixed_jobID),
      [(fixed_jobID, \<lparr>result = [], isDone = False\<rparr>)],
      [Lookup (Some ''zzz'') (Fin 5) fixed_jobID])"
    by (simp add: area_request_accepts p Map_set_def)
  have 2: "area_lookup_settled no_coercion ([origin_city, far_city], None) (Some ''zzz'') (Fin 5)
             fixed_jobID jobs = (jobs, [])" for jobs
    by (rule lookup_not_found) (simp add: origin_city_def far_city_def plain_object_def get_prop_def)
  have 3: "area_result fixed_jobID [(fixed_jobID, \<lparr>result = [], isDone = False\<rparr>)] = StatusText 202"
    by (simp add: area_result_def Map_has_def Map_get_def respondWithCode_def)
  show ?thesis
    using 1 2 3 by simp
qed

text \<open>
  Claim C3 says that \<open>/area\<close> answers 400 and creates no job when \<open>from\<close> or \<open>distance\<close>
  is missing. Here the request is \<open>/area?from=a\<close>, with no \<open>distance\<close>: it is answered
  202 with a results URL, a job is created, and the lookup is started with the distance
  \<open>NaN\<close>.
\<close>

theorem area_missing_distance_accepted:
  "area_request (Some ''a'') None ''u'' [] =
     (Accepted_resultsUrl (endpoint @ ''/area-result/'' @ fixed_jobID),
      [(fixed_jobID, \<lparr>result = [], isDone = False\<rparr>)],
      [Lookup (Some ''a'') NaN fixed_jobID])"
proof -
  have p: "parseInt None = NaN"
    by (simp add: parseInt_eval)
  show ?thesis
    by (simp add: area_request_accepts p Map_set_def)
qed

text \<open>
  Claim C4, as amended. Completing a job whose entry has been deleted is not a no-op:
  completion stores \<open>{result, isDone: true}\<close> under the job id whatever the registry
  holds, so after it the registry contains a done entry for that id again.
\<close>

theorem completion_recreates_deleted_job:
  "Map_get jobID (Map_delete jobID jobs) = None
   \<and> Map_get jobID (scan_settled cv (elems, None) fromCity distance jobID (Map_delete jobID jobs))
      = Some \<lparr>result = filter (area_matcher cv fromCity distance) elems, isDone = True\<rparr>"
  by (simp add: Map_get_delete scan_settled_ok Map_get_set)

text \<open>
  Claim C4 as stated fails: the expiry timer deletes the entry of job \<open>j\<close>, then its scan
  settles, and the registry has an entry for \<open>j\<close>.
\<close>

theorem completion_after_expiry_counterexample:
  "Map_get ''j'' (expiry_fired ''j'' [(''j'', \<lparr>result = [], isDone = False\<rparr>)]) = None
   \<and> Map_get ''j'' (scan_settled no_coercion ([], None) origin_city (Fin 1000) ''j''
        (expiry_fired ''j'' [(''j'', \<lparr>result = [], isDone = False\<rparr>)]))
      = Some \<lparr>result = [], isDone = True\<rparr>"
  by (simp add: expiry_fired_def Map_get_delete scan_settled_ok Map_get_set)

text \<open>
  Claim C5, as amended. A job is assigned the fixed identifier exactly when the registry
  is empty at the time of its request: the first job overall, and also any later job
  issued once every earlier entry has been deleted. A job issued while the registry
  holds at least one entry is assigned the random identifier.
\<close>

theorem jobID_fixed_iff_registry_empty:
  "area_request (Some f) d uuid areaProcessingJobs_init =
     (Accepted_resultsUrl (endpoint @ ''/area-result/'' @ fixed_jobID),
      Map_set fixed_jobID \<lparr>result = [], isDone = False\<rparr> areaProcessingJobs_init,
      [Lookup (Some f) (parseInt d) fixed_jobID])
   \<and> (Map_size jobs = 0 \<longrightarrow>
        area_request (Some f) d uuid jobs =
          (Accepted_resultsUrl (endpoint @ ''/area-result/'' @ fixed_jobID),
           Map_set fixed_jobID \<lparr>result = [], isDone = False\<rparr> jobs,
           [Lookup (Some f) (parseInt d) fixed_jobID]))
   \<and> (Map_size jobs \<noteq> 0 \<longrightarrow>
        area_request (Some f) d uuid jobs =
          (Accepted_resultsUrl (endpoint @ ''/area-result/'' @ uuid),
           Map_set uuid \<lparr>result = [], isDone = False\<rparr> jobs,
           [Lookup (Some f) (parseInt d) uuid]))"
  by (simp add: area_request_accepts areaProcessingJobs_init_def Map_size_def)

text \<open>
  A request that arrives while one job exists gets the random identifier \<open>u2\<close>; the
  same request on the initial, empty registry gets the fixed one.
\<close>

theorem jobID_fixed_iff_registry_empty_witness:
  "Map_size [(fixed_jobID, \<lparr>result = [], isDone = False\<rparr>)] \<noteq> 0
   \<and> area_request (Some ''a'') (Some ''5'') ''u2'' [(fixed_jobID, \<lparr>result = [], isDone = False\<rparr>)] =
          (Accepted_resultsUrl (endpoint @ ''/area-result/'' @ ''u2''),
           Map_set ''u2'' \<lparr>result = [], isDone = False\<rparr> [(fixed_jobID, \<lparr>result = [], isDone = False\<rparr>)],
           [Lookup (Some ''a'') (parseInt (Some ''5'')) ''u2''])
   \<and> Map_size areaProcessingJobs_init = 0
   \<and> area_request (Some ''a'') (Some ''5'') ''u2'' areaProcessingJobs_init =
          (Accepted_resultsUrl (endpoint @ ''/area-result/'' @ fixed_jobID),
           Map_set fixed_jobID \<lparr>result = [], isDone = False\<rparr> areaProcessingJobs_init,
           [Lookup (Some ''a'') (parseInt (Some ''5'')) fixed_jobID])"
  using jobID_fixed_iff_registry_empty
      [of "''a''" "Some ''5''" "''u2''" "[(fixed_jobID, \<lparr>result = [], isDone = False\<rparr>)]"]
    jobID_fixed_iff_registry_empty [of "''a''" "Some ''5''" "''u2''" areaProcessingJobs_init]
  by (simp add: Map_size_def areaProcessingJobs_init_def)

text \<open>
  Claim C5 as stated fails: the first job gets the fixed identifier, its lookup, scan and
  expiry run, which empties the registry, and the second job overall gets the fixed
  identifier too.
\<close>

theorem second_job_fixed_id_counterexample:
  "area_request (Some ''a'') (Some ''5'') ''u1'' areaProcessingJobs_init =
     (Accepted_resultsUrl (endpoint @ ''/area-result/'' @ fixed_jobID),
      [(fixed_jobID, \<lparr>result = [], isDone = False\<rparr>)],
      [Lookup (Some ''a'') (Fin 5) fixed_jobID])
   \<and> run_task no_coercion ([origin_city], None) (Lookup (Some ''a'') (Fin 5) fixed_jobID)
        [(fixed_jobID, \<lparr>result = [], isDone = False\<rparr>)] =
     ([(fixed_jobID, \<lparr>result = [], isDone = False\<rparr>)],
      [Expiry fixed_jobID, Scan origin_city (Fin 5000) fixed_jobID])
   \<and> run_task no_coercion ([origin_city], None) (Scan origin_city (Fin 5000) fixed_jobID)
        [(fixed_jobID, \<lparr>result = [], isDone = False\<rparr>)] =
     ([(fixed_jobID, \<lparr>result = [], isDone = True\<rparr>)], [])
   \<and> run_task no_coercion ([origin_city], None) (Expiry fixed_jobID)
        [(fixed_jobID, \<lparr>result = [], isDone = True\<rparr>)] = ([], [])
   \<and> area_request (Some ''a'') (Some ''5'') ''u2'' [] =
     (Accepted_resultsUrl (endpoint @ ''/area-result/'' @ fixed_jobID),
      [(fixed_jobID, \<lparr>result = [], isDone = False\<rparr>)],
      [Lookup (Some ''a'') (Fin 5) fixed_jobID])"
proof -
  have p: "parseInt (Some ''5'') = Fin 5"
    by (simp add: parseInt_eval)
  have 1: "area_request (Some ''a'') (Some ''5'') uuid [] =
     (Accepted_resultsUrl (endpoint @ ''/area-result/'' @ fixed_jobID),
      [(fixed_jobID, \<lparr>result = [], isDone = False\<rparr>)],
      [Lookup (Some ''a'') (Fin 5) fixed_jobID])" for uuid
    by (simp add: area_request_accepts p Map_set_def)
  have 2: "area_lookup_settled no_coercion ([origin_city], None) (Some ''a'') (Fin 5) fixed_jobID jobs =
     (jobs, [Expiry fixed_jobID, Scan origin_city (Fin 5000) fixed_jobID])" for jobs
    by (simp add: area_lookup_settled_def filter_resolves param_val_def guid_query loose_eq_str
        origin_city_def plain_object_def get_prop_def scheduleAreaProcessingJob_def num_mul_def)
  have m: "\<not> area_matcher no_coercion origin_city (Fin 5000) origin_city"
    by (simp add: area_matcher_def origin_city_def plain_object_def get_prop_def loose_eq_str)
  have 3: "scan_settled no_coercion ([origin_city], None) origin_city (Fin 5000) fixed_jobID
        [(fixed_jobID, \<lparr>result = [], isDone = False\<rparr>)] =
      [(fixed_jobID, \<lparr>result = [], isDone = True\<rparr>)]"
    by (simp add: scan_settled_ok m Map_set_def)
  have 4: "expiry_fired fixed_jobID [(fixed_jobID, \<lparr>result = [], isDone = True\<rparr>)] = []"
    by (simp add: expiry_fired_def Map_delete_def)
  show ?thesis
    using 1 2 3 4 by (simp add: areaProcessingJobs_init_def)
qed

text \<open>
  Claim C10. When the \<open>distance\<close> parameter is present but \<open>parseInt\<close> yields \<open>NaN\<close>
  and a record of the dataset has the requested \<open>guid\<close>, the request is answered 202
  with a results URL; the lookup, whatever the registry holds by then, schedules the
  scan with the radius \<open>NaN\<close>; and when that scan settles on a read that ends normally,
  the job is done with an empty result, which \<open>/area-result\<close> then returns.
\<close>

theorem area_unparseable_distance_empty_result:
  assumes "parseInt (Some d) = NaN" and "\<exists>c \<in> set dataset. get_prop c ''guid'' = Str f"
  shows "\<exists>jobID fromCity.
     area_request (Some f) (Some d) uuid jobs =
       (Accepted_resultsUrl (endpoint @ ''/area-result/'' @ jobID),
        Map_set jobID \<lparr>result = [], isDone = False\<rparr> jobs, [Lookup (Some f) NaN jobID])
     \<and> (\<forall>jobs1. area_lookup_settled cv (dataset, None) (Some f) NaN jobID jobs1
           = (jobs1, [Expiry jobID, Scan fromCity NaN jobID]))
     \<and> (\<forall>dataset2 jobs2.
           scan_settled cv (dataset2, None) fromCity NaN jobID jobs2
             = Map_set jobID \<lparr>result = [], isDone = True\<rparr> jobs2
           \<and> area_result jobID (scan_settled cv (dataset2, None) fromCity NaN jobID jobs2)
               = Ok_cities [])"
proof -
  from assms(2) obtain c where c: "c \<in> set dataset" "get_prop c ''guid'' = Str f"
    by blast
  from lookup_found [OF c, of cv] obtain fromCity where
    l: "\<And>d jobID jobs. area_lookup_settled cv (dataset, None) (Some f) d jobID jobs
           = (jobs, [Expiry jobID, Scan fromCity (num_mul d (Fin 1000)) jobID])"
    by blast
  have m: "filter (area_matcher cv fromCity NaN) xs = []" for xs
    by (simp add: area_matcher_def num_lt_NaN)
  have s: "scan_settled cv (dataset2, None) fromCity NaN jobID jobs2
             = Map_set jobID \<lparr>result = [], isDone = True\<rparr> jobs2" for dataset2 jobID jobs2
    by (simp add: scan_settled_ok m)
  have r: "area_result jobID (Map_set jobID \<lparr>result = [], isDone = True\<rparr> jobs2) = Ok_cities []"
    for jobID jobs2
    by (simp add: area_result_def Map_has_def Map_get_set Map_get_def [symmetric])
  show ?thesis
    using assms(1) by (simp add: area_request_accepts l num_mul_def s r)
qed

text \<open>
  The request \<open>/area?from=a&distance=abc\<close> on the dataset of \<open>origin_city\<close> and
  \<open>far_city\<close>.
\<close>

theorem area_unparseable_distance_empty_result_witness:
  "parseInt (Some ''abc'') = NaN
   \<and> (\<exists>c \<in> set [origin_city, far_city]. get_prop c ''guid'' = Str ''a'')
   \<and> (\<exists>jobID fromCity.
     area_request (Some ''a'') (Some ''abc'') ''u'' [] =
       (Accepted_resultsUrl (endpoint @ ''/area-result/'' @ jobID),
        Map_set jobID \<lparr>result = [], isDone = False\<rparr> [], [Lookup (Some ''a'') NaN jobID])
     \<and> (\<forall>jobs1. area_lookup_settled no_coercion ([origin_city, far_city], None) (Some ''a'') NaN
                   jobID jobs1
           = (jobs1, [Expiry jobID, Scan fromCity NaN jobID]))
     \<and> (\<forall>dataset2 jobs2.
           scan_settled no_coercion (dataset2, None) fromCity NaN jobID jobs2
             = Map_set jobID \<lparr>result = [], isDone = True\<rparr> jobs2
           \<and> area_result jobID (scan_settled no_coercion (dataset2, None) fromCity NaN jobID jobs2)
               = Ok_cities []))"
proof -
  have h1: "parseInt (Some ''abc'') = NaN"
    by (simp add: parseInt_eval)
  have h2: "\<exists>c \<in> set [origin_city, far_city]. get_prop c ''guid'' = Str ''a''"
    by (simp add: origin_city_def plain_object_def get_prop_def)
  show ?thesis
    using h1 h2
      area_unparseable_distance_empty_result [OF h1 h2, of "''u''" "[]" no_coercion]
    by simp
qed

end
